theory Spec2Isabelle
  imports Complex_Main "HOL-Library.Multiset"
begin

section \<open>JavaScript strings\<close>

text \<open>
  A JavaScript string is modelled as a \<^typ>\<open>string\<close>: a list of code units, here
  restricted to the code units below 256. \<open>isWhiteSpace\<close> holds of the code units that
  \<open>String.prototype.trim\<close> and the string-to-number conversion strip (the ECMAScript
  \<open>WhiteSpace\<close> and \<open>LineTerminator\<close> productions) in that range: TAB, LF, VT, FF, CR,
  SPACE and NBSP.
\<close>

definition isWhiteSpace :: "char \<Rightarrow> bool" where
  "isWhiteSpace c = ((of_char c :: nat) \<in> set [9, 10, 11, 12, 13, 32, 160])"

definition trim :: "string \<Rightarrow> string" where
  "trim s = rev (dropWhile isWhiteSpace (rev (dropWhile isWhiteSpace s)))"

section \<open>The group-creation form (\<open>CreateGroupModal\<close>)\<close>

record member =
  member_id :: string
  member_name :: string

text \<open>The component state: one field for each \<open>useState\<close> of \<open>CreateGroupModal\<close>.\<close>

record create_group_form =
  cg_name :: string
  cg_selectedMembers :: "string list"
  cg_error :: "string option"
  cg_allMembers :: "member list"
  cg_searchQuery :: string
  cg_suggestions :: "member list"
  cg_showSuggestions :: bool

text \<open>
  \<open>handleSubmit\<close> of \<open>CreateGroupModal\<close>. The result is the component state after the call
  and the arguments of the \<open>onSubmit\<close> call it made, if it made one.
\<close>

definition cg_handleSubmit ::
  "create_group_form \<Rightarrow> create_group_form \<times> (string \<times> string list) option" where
  "cg_handleSubmit f =
     (if trim (cg_name f) = [] then
        (f\<lparr>cg_error := Some ''Please enter a group name''\<rparr>, None)
      else if length (cg_selectedMembers f) < 2 then
        (f\<lparr>cg_error := Some ''Please add at least 2 members''\<rparr>, None)
      else
        (f\<lparr>cg_name := [], cg_selectedMembers := [], cg_error := None\<rparr>,
         Some (trim (cg_name f), cg_selectedMembers f)))"

section \<open>String to number conversion (\<open>Number(s)\<close>)\<close>

text \<open>
  The value of \<open>Number(s)\<close> for a string \<open>s\<close>, after the ECMAScript grammar
  \<open>StringNumericLiteral\<close>: surrounding white space is stripped; the empty string is
  0; a decimal literal may carry a sign, a fraction and an exponent; \<open>Infinity\<close> may
  carry a sign; binary, octal and hexadecimal literals carry a \<open>0b\<close>, \<open>0o\<close>, \<open>0x\<close>
  prefix and no sign; every other string is \<open>NaN\<close>. A finite result holds the exact
  value of the literal: the rounding to a double is not modelled (it never turns a
  number into \<open>NaN\<close>).
\<close>

datatype jsnum = NaN | Num rat | PosInfinity | NegInfinity

definition isNaN :: "jsnum \<Rightarrow> bool" where
  "isNaN x = (x = NaN)"

definition negate :: "jsnum \<Rightarrow> jsnum" where
  "negate x = (case x of NaN \<Rightarrow> NaN | Num q \<Rightarrow> Num (- q)
     | PosInfinity \<Rightarrow> NegInfinity | NegInfinity \<Rightarrow> PosInfinity)"

definition isDigit :: "char \<Rightarrow> bool" where
  "isDigit c = (48 \<le> (of_char c :: nat) \<and> (of_char c :: nat) \<le> 57)"

definition digitValue :: "char \<Rightarrow> nat" where
  "digitValue c =
     (let n = (of_char c :: nat) in
      if 48 \<le> n \<and> n \<le> 57 then n - 48
      else if 97 \<le> n \<and> n \<le> 102 then n - 87
      else if 65 \<le> n \<and> n \<le> 70 then n - 55
      else 16)"

definition digitsValue :: "nat \<Rightarrow> string \<Rightarrow> nat" where
  "digitsValue base ds = foldl (\<lambda>acc c. base * acc + digitValue c) 0 ds"

definition allDigits :: "nat \<Rightarrow> string \<Rightarrow> bool" where
  "allDigits base ds = (ds \<noteq> [] \<and> list_all (\<lambda>c. digitValue c < base) ds)"

text \<open>\<open>ExponentPart\<close>, or nothing: the exponent, or \<open>None\<close> when the text is neither.\<close>

definition exponentPart :: "string \<Rightarrow> int option" where
  "exponentPart s =
     (case s of
        [] \<Rightarrow> Some 0
      | c # t \<Rightarrow>
          if c = CHR ''e'' \<or> c = CHR ''E'' then
            (case t of
               [] \<Rightarrow> None
             | d # u \<Rightarrow>
                 if d = CHR ''+'' then
                   (if allDigits 10 u then Some (int (digitsValue 10 u)) else None)
                 else if d = CHR ''-'' then
                   (if allDigits 10 u then Some (- int (digitsValue 10 u)) else None)
                 else if allDigits 10 t then Some (int (digitsValue 10 t)) else None)
          else None)"

definition scale10 :: "rat \<Rightarrow> int \<Rightarrow> rat" where
  "scale10 q e = (if 0 \<le> e then q * 10 ^ nat e else q / 10 ^ nat (- e))"

text \<open>\<open>StrUnsignedDecimalLiteral\<close>.\<close>

definition strUnsignedDecimalLiteral :: "string \<Rightarrow> jsnum" where
  "strUnsignedDecimalLiteral s =
     (if s = ''Infinity'' then PosInfinity
      else
        let ip = takeWhile isDigit s;
            r1 = dropWhile isDigit s;
            fp = (case r1 of [] \<Rightarrow> [] | c # t \<Rightarrow> if c = CHR ''.'' then takeWhile isDigit t else []);
            r2 = (case r1 of [] \<Rightarrow> [] | c # t \<Rightarrow> if c = CHR ''.'' then dropWhile isDigit t else r1)
        in
          if ip = [] \<and> fp = [] then NaN
          else
            (case exponentPart r2 of
               None \<Rightarrow> NaN
             | Some e \<Rightarrow>
                 Num (scale10 (of_nat (digitsValue 10 ip)
                        + of_nat (digitsValue 10 fp) / 10 ^ length fp) e)))"

text \<open>\<open>NonDecimalIntegerLiteral\<close>: the base of the prefix \<open>0b\<close>, \<open>0o\<close>, \<open>0x\<close>, if any.\<close>

definition prefixBase :: "string \<Rightarrow> nat option" where
  "prefixBase s =
     (case s of
        c # d # t \<Rightarrow>
          if c = CHR ''0'' then
            (if d = CHR ''x'' \<or> d = CHR ''X'' then Some 16
             else if d = CHR ''o'' \<or> d = CHR ''O'' then Some 8
             else if d = CHR ''b'' \<or> d = CHR ''B'' then Some 2
             else None)
          else None
      | _ \<Rightarrow> None)"

definition Number :: "string \<Rightarrow> jsnum" where
  "Number s =
     (let t = trim s in
      if t = [] then Num 0
      else
        (case prefixBase t of
           Some base \<Rightarrow>
             if allDigits base (drop 2 t) then Num (of_nat (digitsValue base (drop 2 t)))
             else NaN
         | None \<Rightarrow>
             if hd t = CHR ''+'' then strUnsignedDecimalLiteral (tl t)
             else if hd t = CHR ''-'' then negate (strUnsignedDecimalLiteral (tl t))
             else strUnsignedDecimalLiteral t))"

section \<open>The expense form (\<open>AddExpenseModal\<close>)\<close>

text \<open>The component state: one field for each \<open>useState\<close> of \<open>AddExpenseModal\<close>.\<close>

record add_expense_form =
  ae_description :: string
  ae_amount :: string
  ae_paidBy :: string
  ae_selectedMembers :: "string list"
  ae_error :: "string option"
  ae_showPaidByDropdown :: bool

text \<open>
  \<open>handleSubmit\<close> of \<open>AddExpenseModal\<close>: the component state after the call, and the
  arguments of the \<open>onSubmit\<close> call it made, if it made one. \<open>onSubmit\<close> is the only
  way in which the form reaches the expenses of the group: the screen's
  \<open>handleAddExpense\<close> posts the expense and fetches the group and its expenses again.
\<close>

definition ae_handleSubmit ::
  "add_expense_form \<Rightarrow> add_expense_form \<times> (string \<times> jsnum \<times> string \<times> string list) option" where
  "ae_handleSubmit f =
     (if trim (ae_description f) = [] then
        (f\<lparr>ae_error := Some ''Please enter a description''\<rparr>, None)
      else if trim (ae_amount f) = [] \<or> isNaN (Number (ae_amount f)) then
        (f\<lparr>ae_error := Some ''Please enter a valid amount''\<rparr>, None)
      else if trim (ae_paidBy f) = [] then
        (f\<lparr>ae_error := Some ''Please select who paid''\<rparr>, None)
      else if length (ae_selectedMembers f) = 0 then
        (f\<lparr>ae_error := Some ''Please select at least one member to split with''\<rparr>, None)
      else
        (f\<lparr>ae_description := [], ae_amount := [], ae_paidBy := [],
           ae_selectedMembers := [], ae_error := None\<rparr>,
         Some (trim (ae_description f), Number (ae_amount f), trim (ae_paidBy f),
               ae_selectedMembers f)))"

text \<open>
  Pressing the submit button with the parent's \<open>onSubmit\<close> handler: the handler runs
  on the parent's state only when \<open>handleSubmit\<close> calls it.
\<close>

definition pressSubmit ::
  "(string \<times> jsnum \<times> string \<times> string list \<Rightarrow> 's \<Rightarrow> 's) \<Rightarrow> add_expense_form \<times> 's
     \<Rightarrow> add_expense_form \<times> 's" where
  "pressSubmit onSubmit fs =
     (case ae_handleSubmit (fst fs) of
        (f', None) \<Rightarrow> (f', snd fs)
      | (f', Some args) \<Rightarrow> (f', onSubmit args (snd fs)))"

section \<open>The API response handler (\<open>handleResponse\<close>)\<close>

datatype json =
    JNull
  | JBool bool
  | JNumber rat
  | JString string
  | JArray "json list"
  | JObject "(string \<times> json) list"

text \<open>
  What \<open>handleResponse\<close> reads of a \<open>Response\<close>: the status, the \<open>content-type\<close>
  header (\<open>None\<close> is \<open>null\<close>: no such header), and the value \<open>response.json()\<close>
  resolves to (\<open>None\<close>: the promise rejects, the body is not JSON text).
  \<open>response.ok\<close> is true for the statuses 200 to 299.
\<close>

record response =
  status :: nat
  contentType :: "string option"
  jsonBody :: "json option"

definition ok :: "response \<Rightarrow> bool" where
  "ok r = (200 \<le> status r \<and> status r \<le> 299)"

text \<open>
  The values a rejected \<open>handleResponse\<close> promise carries: \<open>Error v\<close> is
  \<open>new Error(v)\<close> (the constructor turns \<open>v\<close> into the message string),
  \<open>TypeError\<close> the property read on \<open>null\<close>, \<open>SyntaxError\<close> the rejection of
  \<open>response.json()\<close>.
\<close>

datatype js_error = Error json | TypeError | SyntaxError

definition truthy :: "json \<Rightarrow> bool" where
  "truthy v = (case v of JNull \<Rightarrow> False | JBool b \<Rightarrow> b | JNumber q \<Rightarrow> q \<noteq> 0
     | JString s \<Rightarrow> s \<noteq> [] | JArray _ \<Rightarrow> True | JObject _ \<Rightarrow> True)"

text \<open>\<open>v.message\<close> for a value other than \<open>null\<close>; \<open>None\<close> is \<open>undefined\<close>.\<close>

definition message :: "json \<Rightarrow> json option" where
  "message v = (case v of JObject kvs \<Rightarrow> map_of kvs ''message'' | _ \<Rightarrow> None)"

fun includes_str :: "string \<Rightarrow> string \<Rightarrow> bool" where
  "includes_str [] sub = (sub = [])"
| "includes_str (c # cs) sub = (take (length sub) (c # cs) = sub \<or> includes_str cs sub)"

text \<open>
  The test \<open>contentType && contentType.includes('application/json')\<close> on the header
  value \<open>response.headers.get('content-type')\<close>.
\<close>

definition isJsonContent :: "string option \<Rightarrow> bool" where
  "isJsonContent header =
     (case header of
        None \<Rightarrow> False
      | Some ct \<Rightarrow> ct \<noteq> [] \<and> includes_str ct ''application/json'')"

definition handleResponse :: "response \<Rightarrow> js_error + json" where
  "handleResponse r =
     (if \<not> ok r then
        (case (case jsonBody r of None \<Rightarrow> JObject [] | Some v \<Rightarrow> v) of
           JNull \<Rightarrow> Inl TypeError
         | error \<Rightarrow>
             (case message error of
                None \<Rightarrow> Inl (Error (JString ''Something went wrong''))
              | Some m \<Rightarrow>
                  Inl (Error (if truthy m then m else JString ''Something went wrong''))))
      else if status r = 204 then Inr (JObject [])
      else if isJsonContent (contentType r) then
        (case jsonBody r of None \<Rightarrow> Inl SyntaxError | Some v \<Rightarrow> Inr v)
      else Inr (JObject []))"

section \<open>Expenses by month (\<open>GroupDetailScreen\<close>)\<close>

datatype expense_type = ExpenseType | SettlementType

text \<open>The interface \<open>Expense\<close>; \<open>expense_uid\<close> is the field \<open>_id\<close>.\<close>

record expense =
  expense_uid :: string
  expense_id :: string
  groupId :: string
  description :: string
  amount :: jsnum
  paidBy :: string
  splitBetween :: "string list"
  createdAt :: string
  expense_type :: expense_type

text \<open>
  The two operations of the JavaScript runtime that the screen uses on dates:
  \<open>toLocaleMonthYear s\<close> is
  \<open>new Date(s).toLocaleString('default', {month: 'long', year: 'numeric'})\<close>, and
  \<open>dateGetTime s\<close> is \<open>new Date(s).getTime()\<close>, with \<open>None\<close> for \<open>NaN\<close> (an invalid date).
  Both depend on the locale and on the engine: ECMAScript fixes the parsing of the ISO
  format only.
\<close>

record runtime =
  toLocaleMonthYear :: "string \<Rightarrow> string"
  dateGetTime :: "string \<Rightarrow> int option"

text \<open>
  The object \<open>groups\<close> is an association list in the order in which the keys were
  first assigned, which is the order of \<open>Object.entries\<close> for keys that are neither
  array indices nor names of \<open>Object.prototype\<close>; a month name with a year is neither.
  \<open>pushExpense\<close> is the body of the reducer: create the array of the key if there is
  none, then push.
\<close>

fun pushExpense :: "string \<Rightarrow> 'a \<Rightarrow> (string \<times> 'a list) list \<Rightarrow> (string \<times> 'a list) list" where
  "pushExpense monthKey e [] = [(monthKey, [e])]"
| "pushExpense monthKey e ((k, es) # groups) =
     (if k = monthKey then (k, es @ [e]) # groups
      else (k, es) # pushExpense monthKey e groups)"

definition groupExpensesByMonth :: "runtime \<Rightarrow> expense list \<Rightarrow> (string \<times> expense list) list" where
  "groupExpensesByMonth rt expenses =
     foldl (\<lambda>groups e. pushExpense (toLocaleMonthYear rt (createdAt e)) e groups) [] expenses"

text \<open>
  The comparator of the screen: \<open>new Date(b[0]).getTime() - new Date(a[0]).getTime()\<close>.
  A \<open>NaN\<close> result counts as 0 in \<open>Array.prototype.sort\<close>.
\<close>

definition compareMonths :: "runtime \<Rightarrow> string \<times> 'a \<Rightarrow> string \<times> 'a \<Rightarrow> int" where
  "compareMonths rt a b =
     (case dateGetTime rt (fst b) of
        None \<Rightarrow> 0
      | Some tb \<Rightarrow> (case dateGetTime rt (fst a) of None \<Rightarrow> 0 | Some ta \<Rightarrow> tb - ta))"

text \<open>
  \<open>Array.prototype.sort\<close> is stable: \<open>a\<close> comes before \<open>b\<close> when the comparator is
  negative on \<open>(a, b)\<close>, and elements that compare 0 keep their order. It is modelled
  as a stable insertion sort.
\<close>

fun insertSorted :: "('a \<Rightarrow> 'a \<Rightarrow> int) \<Rightarrow> 'a \<Rightarrow> 'a list \<Rightarrow> 'a list" where
  "insertSorted cmp x [] = [x]"
| "insertSorted cmp x (y # ys) =
     (if cmp x y \<le> 0 then x # y # ys else y # insertSorted cmp x ys)"

definition sortWith :: "('a \<Rightarrow> 'a \<Rightarrow> int) \<Rightarrow> 'a list \<Rightarrow> 'a list" where
  "sortWith cmp xs = foldr (insertSorted cmp) xs []"

text \<open>The month sections the screen renders, in order, each with its expenses.\<close>

definition monthSections :: "runtime \<Rightarrow> expense list \<Rightarrow> (string \<times> expense list) list" where
  "monthSections rt expenses = sortWith (compareMonths rt) (groupExpensesByMonth rt expenses)"

text \<open>
  An example runtime: German month names for ISO time stamps (\<open>2024-05-17T...\<close>, read
  in UTC), and a \<open>Date\<close> constructor that does not parse a month name with a year.
\<close>

definition germanMonths :: "string list" where
  "germanMonths = [''Januar'', ''Februar'', [CHR ''M'', CHR 0xE4, CHR ''r'', CHR ''z''],
     ''April'', ''Mai'', ''Juni'', ''Juli'', ''August'', ''September'', ''Oktober'',
     ''November'', ''Dezember'']"

definition germanMonthYear :: "string \<Rightarrow> string" where
  "germanMonthYear s =
     (let m = digitsValue 10 (take 2 (drop 5 s)) in
      if 1 \<le> m \<and> m \<le> 12 then germanMonths ! (m - 1) @ '' '' @ take 4 s
      else ''Invalid Date'')"

definition germanRuntime :: runtime where
  "germanRuntime = \<lparr>toLocaleMonthYear = germanMonthYear, dateGetTime = (\<lambda>s. None)\<rparr>"

text \<open>
  A second example runtime, with the same month names: its \<open>Date\<close> constructor
  skips a word it does not know and reads the year, so that every key of a year gets
  the time of the start of that year (in milliseconds since 1970, UTC).
\<close>

definition startOfYear :: "nat \<Rightarrow> int" where
  "startOfYear y =
     (365 * (int y - 1970) + (int y - 1969) div 4 - (int y - 1901) div 100
        + (int y - 1601) div 400) * 86400000"

definition yearOnlyTime :: "string \<Rightarrow> int option" where
  "yearOnlyTime s =
     (let y = drop (length s - 4) s in
      if allDigits 10 y then Some (startOfYear (digitsValue 10 y)) else None)"

definition germanRuntimeYearOnly :: runtime where
  "germanRuntimeYearOnly =
     \<lparr>toLocaleMonthYear = germanMonthYear, dateGetTime = yearOnlyTime\<rparr>"

definition mkExpense :: "string \<Rightarrow> string \<Rightarrow> expense" where
  "mkExpense i t = \<lparr>expense_uid = i, expense_id = i, groupId = ''g'', description = ''Lunch'',
     amount = Num 10, paidBy = ''A'', splitBetween = [''A'', ''B''], createdAt = t,
     expense_type = ExpenseType\<rparr>"

text \<open>
  What the reducer maintains, for the expenses \<open>xs\<close> read so far and the key
  \<open>kf\<close> of an expense: the keys are distinct, they are the keys of \<open>xs\<close>, and the
  array of a key holds the expenses of that key in the order of \<open>xs\<close>.
\<close>

definition bucketsOf :: "('a \<Rightarrow> string) \<Rightarrow> 'a list \<Rightarrow> (string \<times> 'a list) list \<Rightarrow> bool" where
  "bucketsOf kf xs gs =
     (distinct (map fst gs) \<and> set (map fst gs) = kf ` set xs \<and>
      (\<forall>g\<in>set gs. snd g = filter (\<lambda>e. kf e = fst g) xs))"

section \<open>The handlers of the group screen (\<open>GroupDetailScreen\<close>)\<close>

text \<open>
  Modelled from the spec: the interface \<open>Group\<close> is not among the sources; its fields
  are those of section 3, which are the ones the screens read (\<open>id\<close>, \<open>name\<close>,
  \<open>members\<close>, \<open>totalExpenses\<close>).
\<close>

record group =
  group_id :: string
  group_name :: string
  group_members :: "string list"
  group_totalExpenses :: jsnum

text \<open>
  What a rejected promise of the API carries: an \<open>Error\<close> object with its message, or
  another value. \<open>messageOf err fallback\<close> is
  \<open>err instanceof Error ? err.message : fallback\<close>.
\<close>

datatype rejection = ErrorObject string | OtherValue

definition messageOf :: "rejection \<Rightarrow> string \<Rightarrow> string" where
  "messageOf err fallback = (case err of ErrorObject m \<Rightarrow> m | OtherValue \<Rightarrow> fallback)"

text \<open>
  The outcomes of the API calls the screen makes, as functions of their arguments:
  \<open>Inl\<close> is a rejected promise. \<open>getGroupAndExpenses\<close> is the
  \<open>Promise.all\<close> of \<open>getById\<close> and \<open>getExpenses\<close> in \<open>fetchData\<close>.
\<close>

record api =
  createExpense :: "string \<Rightarrow> string \<times> jsnum \<times> string \<times> string list \<Rightarrow> rejection + expense"
  deleteExpense :: "string \<Rightarrow> string \<Rightarrow> rejection + unit"
  getExpenses :: "string \<Rightarrow> rejection + expense list"
  getGroupAndExpenses :: "string \<Rightarrow> rejection + group \<times> expense list"

text \<open>
  The state of the screen: the route parameter \<open>id\<close> and one field for each
  \<open>useState\<close>. The group (with its \<open>totalExpenses\<close>) and the expenses are the ledger
  the screen holds in memory.
\<close>

record screen =
  sc_id :: string
  sc_group :: "group option"
  sc_expenses :: "expense list"
  sc_isLoading :: bool
  sc_error :: "string option"
  sc_isAddExpenseModalVisible :: bool

definition fetchData :: "api \<Rightarrow> screen \<Rightarrow> screen" where
  "fetchData srv s =
     (case getGroupAndExpenses srv (sc_id s) of
        Inr ge \<Rightarrow> s\<lparr>sc_group := Some (fst ge), sc_expenses := snd ge, sc_isLoading := False\<rparr>
      | Inl err \<Rightarrow>
          s\<lparr>sc_error := Some (messageOf err ''Failed to fetch data''), sc_isLoading := False\<rparr>)"

text \<open>
  \<open>handleAddExpense\<close>, the \<open>onSubmit\<close> handler the screen gives to the expense form:
  post the expense, then fetch the data again and close the form; a rejected post sets
  the error and nothing else.
\<close>

definition handleAddExpense ::
  "api \<Rightarrow> string \<times> jsnum \<times> string \<times> string list \<Rightarrow> screen \<Rightarrow> screen" where
  "handleAddExpense srv args s =
     (case createExpense srv (sc_id s) args of
        Inl err \<Rightarrow> s\<lparr>sc_error := Some (messageOf err ''Failed to add expense'')\<rparr>
      | Inr created \<Rightarrow> (fetchData srv s)\<lparr>sc_isAddExpenseModalVisible := False\<rparr>)"

text \<open>
  \<open>handleDeleteExpense\<close>, once the user has confirmed with \<open>Delete\<close>: delete the
  expense, then read the expenses again; a rejection of either call sets the error and
  nothing else.
\<close>

definition handleDeleteExpense :: "api \<Rightarrow> string \<Rightarrow> screen \<Rightarrow> screen" where
  "handleDeleteExpense srv expenseId s =
     (case deleteExpense srv (sc_id s) expenseId of
        Inl err \<Rightarrow> s\<lparr>sc_error := Some (messageOf err ''Failed to delete expense'')\<rparr>
      | Inr done \<Rightarrow>
          (case getExpenses srv (sc_id s) of
             Inl err \<Rightarrow> s\<lparr>sc_error := Some (messageOf err ''Failed to delete expense'')\<rparr>
           | Inr updatedExpenses \<Rightarrow> s\<lparr>sc_expenses := updatedExpenses\<rparr>))"

text \<open>
  An example server that rejects every post and every deletion with the message of
  its validation, and an example screen.
\<close>

definition rejectingServer :: api where
  "rejectingServer =
     \<lparr>createExpense = (\<lambda>gid args. Inl (ErrorObject ''Amount must be positive'')),
      deleteExpense = (\<lambda>gid eid. Inl (ErrorObject ''Expense not found'')),
      getExpenses = (\<lambda>gid. Inl OtherValue),
      getGroupAndExpenses = (\<lambda>gid. Inl OtherValue)\<rparr>"

definition tripScreen :: screen where
  "tripScreen =
     \<lparr>sc_id = ''g'',
      sc_group = Some \<lparr>group_id = ''g'', group_name = ''Trip'',
        group_members = [''A'', ''B''], group_totalExpenses = Num 10\<rparr>,
      sc_expenses = [mkExpense ''e1'' ''2024-05-17T10:00:00.000Z''],
      sc_isLoading = False, sc_error = None, sc_isAddExpenseModalVisible = True\<rparr>"

section \<open>The ledger engine of the specification\<close>

text \<open>
  Modelled from the spec: the data model of section 3 and the error kinds of section 7,
  with amounts in integer minor currency units. The sources hold no ledger object and
  no balance computation (the screens show what the server returns), so every
  definition of this section follows the words of sections 3 and 4.1.
\<close>

datatype record_kind = ExpenseKind | SettlementKind

record ledger_record =
  record_id :: nat
  record_kind :: record_kind
  record_description :: string
  amountMinorUnits :: int
  payer :: string
  splitSet :: "string list"
  record_createdAt :: nat

record draft =
  draft_kind :: record_kind
  draft_description :: string
  draft_amount :: int
  draft_payer :: string
  draft_split :: "string list"

record ledger =
  members :: "string list"
  records :: "ledger_record list"
  totalExpenses :: int
  nextId :: nat

datatype ledger_error =
    InvalidAmountError
  | MissingDescriptionError
  | UnknownMemberError
  | EmptySplitError
  | InvalidSettlementError
  | RecordNotFoundError
  | InvalidRecordError

text \<open>
  Modelled from the spec: the construction of a LedgerEngine from a group's member
  list, with no records yet.
\<close>

definition newLedger :: "string list \<Rightarrow> ledger" where
  "newLedger ms = \<lparr>members = ms, records = [], totalExpenses = 0, nextId = 0\<rparr>"

text \<open>
  Modelled from the spec: the six validation steps of addRecord, in the order of
  section 4.1; the first failing step gives the error.
\<close>

definition validateDraft :: "string list \<Rightarrow> draft \<Rightarrow> ledger_error option" where
  "validateDraft ms d =
     (if draft_amount d \<le> 0 then Some InvalidAmountError
      else if draft_kind d = ExpenseKind \<and> trim (draft_description d) = [] then
        Some MissingDescriptionError
      else if draft_payer d \<notin> set ms then Some UnknownMemberError
      else if draft_split d = [] then Some EmptySplitError
      else if \<not> list_all (\<lambda>m. m \<in> set ms) (draft_split d) then Some UnknownMemberError
      else if draft_kind d = SettlementKind \<and> length (draft_split d) \<noteq> 1 then
        Some InvalidSettlementError
      else None)"

text \<open>
  Modelled from the spec: addRecord of the LedgerEngine, at the instant \<open>now\<close>. On
  success the record gets a fresh identifier, is appended, and totalExpenses grows
  by the amount of an expense.
\<close>

definition addRecord :: "nat \<Rightarrow> draft \<Rightarrow> ledger \<Rightarrow> ledger_error + (ledger_record \<times> ledger)" where
  "addRecord now d l =
     (case validateDraft (members l) d of
        Some e \<Rightarrow> Inl e
      | None \<Rightarrow>
          let r = \<lparr>record_id = nextId l, record_kind = draft_kind d,
                    record_description = draft_description d,
                    amountMinorUnits = draft_amount d, payer = draft_payer d,
                    splitSet = draft_split d, record_createdAt = now\<rparr>
          in Inr (r, l\<lparr>records := records l @ [r],
                       totalExpenses := totalExpenses l
                         + (if draft_kind d = ExpenseKind then draft_amount d else 0),
                       nextId := Suc (nextId l)\<rparr>))"

text \<open>
  Modelled from the spec: removeRecord of the LedgerEngine.
\<close>

definition removeRecord :: "nat \<Rightarrow> ledger \<Rightarrow> ledger_error + (ledger_record \<times> ledger)" where
  "removeRecord rid l =
     (case find (\<lambda>r. record_id r = rid) (records l) of
        None \<Rightarrow> Inl RecordNotFoundError
      | Some r \<Rightarrow>
          Inr (r, l\<lparr>records := filter (\<lambda>x. record_id x \<noteq> rid) (records l),
                       totalExpenses := totalExpenses l
                         - (if record_kind r = ExpenseKind then amountMinorUnits r else 0)\<rparr>))"

text \<open>
  Modelled from the spec: a sequence of additions, each of which is accepted.
\<close>

fun addRecords :: "ledger \<Rightarrow> (nat \<times> draft) list \<Rightarrow> ledger_error + ledger" where
  "addRecords l [] = Inr l"
| "addRecords l (nd # ds) =
     (case addRecord (fst nd) (snd nd) l of
        Inl e \<Rightarrow> Inl e
      | Inr rl \<Rightarrow> addRecords (snd rl) ds)"

text \<open>
  Modelled from the spec: the rounding policy of computeBalances. Each of the
  \<open>n\<close> members of the split set owes the quotient, and the first
  \<open>amount mod n\<close> of them one minor unit more.
\<close>

definition shares :: "int \<Rightarrow> nat \<Rightarrow> int list" where
  "shares a n = map (\<lambda>i. a div int n + (if int i < a mod int n then 1 else 0)) [0..<n]"

text \<open>
  Modelled from the spec: adding a signed amount to one member's net balance.
\<close>

definition credit :: "string \<Rightarrow> int \<Rightarrow> (string \<Rightarrow> int) \<Rightarrow> (string \<Rightarrow> int)" where
  "credit m x bal = bal(m := bal m + x)"

text \<open>
  Modelled from the spec: each member of the split set is debited a share, in the
  iteration order of the split set.
\<close>

fun debitShares :: "(string \<times> int) list \<Rightarrow> (string \<Rightarrow> int) \<Rightarrow> (string \<Rightarrow> int)" where
  "debitShares [] bal = bal"
| "debitShares (ms # rest) bal = debitShares rest (credit (fst ms) (- snd ms) bal)"

text \<open>
  Modelled from the spec: the effect of one record on the balances. An expense
  credits the payer the full amount and debits the split set its shares; a settlement
  of amount A from payer P to the recipient R credits R by A and debits P by A.
\<close>

definition applyRecord :: "ledger_record \<Rightarrow> (string \<Rightarrow> int) \<Rightarrow> (string \<Rightarrow> int)" where
  "applyRecord r bal =
     (case record_kind r of
        ExpenseKind \<Rightarrow>
          debitShares (zip (splitSet r) (shares (amountMinorUnits r) (length (splitSet r))))
            (credit (payer r) (amountMinorUnits r) bal)
      | SettlementKind \<Rightarrow>
          (case splitSet r of
             [recipient] \<Rightarrow>
               credit (payer r) (- amountMinorUnits r)
                 (credit recipient (amountMinorUnits r) bal)
           | _ \<Rightarrow> bal))"

text \<open>
  Modelled from the spec: the balances after all records, from zero.
\<close>

definition netBalances :: "ledger_record list \<Rightarrow> string \<Rightarrow> int" where
  "netBalances rs = foldl (\<lambda>bal r. applyRecord r bal) (\<lambda>m. 0) rs"

text \<open>
  Modelled from the spec: computeBalances of the LedgerEngine, the net signed
  amount of every member of the group.
\<close>

definition computeBalances :: "ledger \<Rightarrow> (string \<rightharpoonup> int)" where
  "computeBalances l =
     map_of (map (\<lambda>m. (m, netBalances (records l) m)) (members l))"

text \<open>
  Modelled from the spec: the sum of the balances computeBalances returns, one
  for each member.
\<close>

definition balanceSum :: "ledger \<Rightarrow> int" where
  "balanceSum l = (\<Sum>m\<in>dom (computeBalances l). the (computeBalances l m))"

text \<open>
  Modelled from the spec: the invariants of a record that section 3 states and that
  the validation of addRecord enforces: the payer and the split set belong to the
  group, the split set is not empty, and a settlement has one recipient.
\<close>

definition validRecord :: "string list \<Rightarrow> ledger_record \<Rightarrow> bool" where
  "validRecord ms r =
     (payer r \<in> set ms \<and> set (splitSet r) \<subseteq> set ms \<and> splitSet r \<noteq> [] \<and>
      (record_kind r = SettlementKind \<longrightarrow> length (splitSet r) = 1))"

text \<open>
  Modelled from the spec: the examples of section 8, an expense of 10000 minor units
  paid by A and split between A, B and C, and a settlement of 5000 minor units from B
  to A, with the ledgers after each of them.
\<close>

definition dinnerDraft :: draft where
  "dinnerDraft = \<lparr>draft_kind = ExpenseKind, draft_description = ''Dinner'',
     draft_amount = 10000, draft_payer = ''A'', draft_split = [''A'', ''B'', ''C'']\<rparr>"

definition dinnerLedger :: ledger where
  "dinnerLedger = \<lparr>members = [''A'', ''B'', ''C''],
     records = [\<lparr>record_id = 0, record_kind = ExpenseKind, record_description = ''Dinner'',
       amountMinorUnits = 10000, payer = ''A'', splitSet = [''A'', ''B'', ''C''],
       record_createdAt = 0\<rparr>],
     totalExpenses = 10000, nextId = 1\<rparr>"

definition paybackDraft :: draft where
  "paybackDraft = \<lparr>draft_kind = SettlementKind, draft_description = [],
     draft_amount = 5000, draft_payer = ''B'', draft_split = [''A'']\<rparr>"

definition paybackRecord :: ledger_record where
  "paybackRecord = \<lparr>record_id = 1, record_kind = SettlementKind, record_description = [],
     amountMinorUnits = 5000, payer = ''B'', splitSet = [''A''], record_createdAt = 7\<rparr>"

definition paybackLedger :: ledger where
  "paybackLedger = dinnerLedger\<lparr>records := records dinnerLedger @ [paybackRecord],
     nextId := 2\<rparr>"

section \<open>Evaluation rules\<close>

lemmas js_eval = Number_def trim_def isWhiteSpace_def prefixBase_def
  strUnsignedDecimalLiteral_def isDigit_def exponentPart_def digitsValue_def digitValue_def
  scale10_def negate_def isNaN_def allDigits_def

lemmas ledger_eval = addRecord_def validateDraft_def newLedger_def computeBalances_def
  netBalances_def applyRecord_def shares_def credit_def trim_def isWhiteSpace_def Let_def
  dinnerDraft_def dinnerLedger_def paybackDraft_def paybackRecord_def paybackLedger_def

section \<open>Properties of the group-creation form\<close>

text \<open>
  Claim C9. The group-creation form submits exactly when the trimmed group name is
  non-empty and at least two members are selected, and then passes the trimmed name and
  the selected members. For every other input the call is rejected: an error message is
  set, \<open>onSubmit\<close> is not called, and every other part of the form state, the entered
  name and the selected members included, is what it was before.
\<close>

theorem createGroup_handleSubmit_gate:
  "(snd (cg_handleSubmit f) \<noteq> None) =
     (trim (cg_name f) \<noteq> [] \<and> 2 \<le> length (cg_selectedMembers f)) \<and>
   (snd (cg_handleSubmit f) \<noteq> None \<longrightarrow>
      snd (cg_handleSubmit f) = Some (trim (cg_name f), cg_selectedMembers f)) \<and>
   (snd (cg_handleSubmit f) = None \<longrightarrow>
      cg_error (fst (cg_handleSubmit f)) \<noteq> None \<and>
      fst (cg_handleSubmit f) = f\<lparr>cg_error := cg_error (fst (cg_handleSubmit f))\<rparr>)"
  by (simp add: cg_handleSubmit_def)

theorem createGroup_handleSubmit_gate_witness:
  "snd (cg_handleSubmit \<lparr>cg_name = ''Trip'', cg_selectedMembers = [''A'', ''B''],
      cg_error = None, cg_allMembers = [], cg_searchQuery = [], cg_suggestions = [],
      cg_showSuggestions = False\<rparr>) = Some (''Trip'', [''A'', ''B'']) \<and>
   snd (cg_handleSubmit \<lparr>cg_name = ''  '', cg_selectedMembers = [''A'', ''B''],
      cg_error = None, cg_allMembers = [], cg_searchQuery = [], cg_suggestions = [],
      cg_showSuggestions = False\<rparr>) = None \<and>
   fst (cg_handleSubmit \<lparr>cg_name = ''Trip'', cg_selectedMembers = [''A''],
      cg_error = None, cg_allMembers = [], cg_searchQuery = [], cg_suggestions = [],
      cg_showSuggestions = False\<rparr>) =
     \<lparr>cg_name = ''Trip'', cg_selectedMembers = [''A''],
      cg_error = Some ''Please add at least 2 members'', cg_allMembers = [],
      cg_searchQuery = [], cg_suggestions = [], cg_showSuggestions = False\<rparr>"
  using
    createGroup_handleSubmit_gate [of "\<lparr>cg_name = ''Trip'', cg_selectedMembers = [''A'', ''B''],
      cg_error = None, cg_allMembers = [], cg_searchQuery = [], cg_suggestions = [],
      cg_showSuggestions = False\<rparr>"]
    createGroup_handleSubmit_gate [of "\<lparr>cg_name = ''  '', cg_selectedMembers = [''A'', ''B''],
      cg_error = None, cg_allMembers = [], cg_searchQuery = [], cg_suggestions = [],
      cg_showSuggestions = False\<rparr>"]
    createGroup_handleSubmit_gate [of "\<lparr>cg_name = ''Trip'', cg_selectedMembers = [''A''],
      cg_error = None, cg_allMembers = [], cg_searchQuery = [], cg_suggestions = [],
      cg_showSuggestions = False\<rparr>"]
  by (simp add: cg_handleSubmit_def trim_def isWhiteSpace_def)

section \<open>Properties of the expense form\<close>

text \<open>
  Claim C5, as amended. \<open>handleSubmit\<close> of the expense form checks the description
  first and the amount second. A blank description is reported as
  \<open>Please enter a description\<close> whatever the amount is. With a description, the error
  \<open>Please enter a valid amount\<close> is reported exactly when the amount text is blank or
  does not convert to a number. An amount that converts to zero, to a negative number or
  to an infinity passes the amount check.
\<close>

theorem addExpense_validation_order:
  "(trim (ae_description f) = [] \<longrightarrow>
      ae_handleSubmit f = (f\<lparr>ae_error := Some ''Please enter a description''\<rparr>, None)) \<and>
   (trim (ae_description f) \<noteq> [] \<longrightarrow>
      (ae_error (fst (ae_handleSubmit f)) = Some ''Please enter a valid amount'') =
      (trim (ae_amount f) = [] \<or> isNaN (Number (ae_amount f)))) \<and>
   \<not> isNaN (Number ''0'') \<and> \<not> isNaN (Number ''-5'') \<and> \<not> isNaN (Number ''Infinity'')"
proof (intro conjI impI)
  assume "trim (ae_description f) = []"
  then show "ae_handleSubmit f = (f\<lparr>ae_error := Some ''Please enter a description''\<rparr>, None)"
    by (simp add: ae_handleSubmit_def)
next
  assume "trim (ae_description f) \<noteq> []"
  then show "(ae_error (fst (ae_handleSubmit f)) = Some ''Please enter a valid amount'') =
      (trim (ae_amount f) = [] \<or> isNaN (Number (ae_amount f)))"
    by (auto simp add: ae_handleSubmit_def)
next
  show "\<not> isNaN (Number ''0'')" by (simp add: js_eval)
  show "\<not> isNaN (Number ''-5'')" by (simp add: js_eval)
  show "\<not> isNaN (Number ''Infinity'')" by (simp add: js_eval)
qed

text \<open>
  The claim as stated fails twice. With a blank description and the amount text
  \<open>abc\<close>, which is not a number, the error is the one of the description. With the
  amount text \<open>-5\<close> and the other fields filled in, no error is reported and the expense
  is submitted with the amount -5.
\<close>

theorem addExpense_validation_order_counterexample:
  "ae_handleSubmit \<lparr>ae_description = ''  '', ae_amount = ''abc'', ae_paidBy = ''A'',
      ae_selectedMembers = [''A'', ''B''], ae_error = None, ae_showPaidByDropdown = False\<rparr> =
     (\<lparr>ae_description = ''  '', ae_amount = ''abc'', ae_paidBy = ''A'',
       ae_selectedMembers = [''A'', ''B''], ae_error = Some ''Please enter a description'',
       ae_showPaidByDropdown = False\<rparr>, None) \<and>
   isNaN (Number ''abc'') \<and>
   ae_handleSubmit \<lparr>ae_description = ''Lunch'', ae_amount = ''-5'', ae_paidBy = ''A'',
      ae_selectedMembers = [''A'', ''B''], ae_error = None, ae_showPaidByDropdown = False\<rparr> =
     (\<lparr>ae_description = [], ae_amount = [], ae_paidBy = [],
       ae_selectedMembers = [], ae_error = None, ae_showPaidByDropdown = False\<rparr>,
      Some (''Lunch'', Num (- 5), ''A'', [''A'', ''B'']))"
  by (simp add: ae_handleSubmit_def js_eval)

theorem addExpense_validation_order_witness:
  "ae_handleSubmit \<lparr>ae_description = '' '', ae_amount = ''12.50'', ae_paidBy = ''A'',
      ae_selectedMembers = [''A''], ae_error = None, ae_showPaidByDropdown = False\<rparr> =
     (\<lparr>ae_description = '' '', ae_amount = ''12.50'', ae_paidBy = ''A'',
       ae_selectedMembers = [''A''], ae_error = Some ''Please enter a description'',
       ae_showPaidByDropdown = False\<rparr>, None) \<and>
   ae_error (fst (ae_handleSubmit \<lparr>ae_description = ''Lunch'', ae_amount = ''12,50'',
      ae_paidBy = ''A'', ae_selectedMembers = [''A''], ae_error = None,
      ae_showPaidByDropdown = False\<rparr>)) = Some ''Please enter a valid amount''"
  using
    addExpense_validation_order [of "\<lparr>ae_description = '' '', ae_amount = ''12.50'',
      ae_paidBy = ''A'', ae_selectedMembers = [''A''], ae_error = None,
      ae_showPaidByDropdown = False\<rparr>"]
    addExpense_validation_order [of "\<lparr>ae_description = ''Lunch'', ae_amount = ''12,50'',
      ae_paidBy = ''A'', ae_selectedMembers = [''A''], ae_error = None,
      ae_showPaidByDropdown = False\<rparr>"]
  by (simp add: js_eval)

text \<open>
  Claim C6, as amended. An amount of 0 is not rejected: with a description, a payer and
  at least one selected member, \<open>handleSubmit\<close> with the amount text \<open>0\<close> reports no
  error, calls \<open>onSubmit\<close> with the amount 0 and clears the form.
\<close>

theorem addExpense_zero_amount_submitted:
  assumes "trim (ae_description f) \<noteq> []" and "ae_amount f = ''0''"
    and "trim (ae_paidBy f) \<noteq> []" and "ae_selectedMembers f \<noteq> []"
  shows "ae_handleSubmit f =
     (f\<lparr>ae_description := [], ae_amount := [], ae_paidBy := [],
         ae_selectedMembers := [], ae_error := None\<rparr>,
      Some (trim (ae_description f), Num 0, trim (ae_paidBy f), ae_selectedMembers f))"
  using assms by (simp add: ae_handleSubmit_def js_eval)

theorem addExpense_zero_amount_counterexample:
  "ae_handleSubmit \<lparr>ae_description = ''Lunch'', ae_amount = ''0'', ae_paidBy = ''A'',
      ae_selectedMembers = [''A'', ''B''], ae_error = None, ae_showPaidByDropdown = False\<rparr> =
     (\<lparr>ae_description = [], ae_amount = [], ae_paidBy = [],
       ae_selectedMembers = [], ae_error = None, ae_showPaidByDropdown = False\<rparr>,
      Some (''Lunch'', Num 0, ''A'', [''A'', ''B'']))"
  by (simp add: ae_handleSubmit_def js_eval)

theorem addExpense_zero_amount_submitted_witness:
  "snd (ae_handleSubmit \<lparr>ae_description = ''Taxi'', ae_amount = ''0'', ae_paidBy = ''B '',
      ae_selectedMembers = [''A''], ae_error = Some ''Please select who paid'',
      ae_showPaidByDropdown = True\<rparr>) = Some (''Taxi'', Num 0, ''B'', [''A''])"
proof -
  let ?f = "\<lparr>ae_description = ''Taxi'', ae_amount = ''0'', ae_paidBy = ''B '',
      ae_selectedMembers = [''A''], ae_error = Some ''Please select who paid'',
      ae_showPaidByDropdown = True\<rparr>"
  have d: "trim (ae_description ?f) \<noteq> []" by (simp add: trim_def isWhiteSpace_def)
  have a: "ae_amount ?f = ''0''" by simp
  have p: "trim (ae_paidBy ?f) \<noteq> []" by (simp add: trim_def isWhiteSpace_def)
  have m: "ae_selectedMembers ?f \<noteq> []" by simp
  show ?thesis
    using addExpense_zero_amount_submitted [OF d a p m]
    by (simp add: trim_def isWhiteSpace_def)
qed

text \<open>
  Claim C8. The operations on the expenses of a group are atomic. When a validation
  step of the expense form fails, the error of that step is reported:
  \<open>Please enter a description\<close> for a blank description,
  \<open>Please enter a valid amount\<close> for an amount text that is blank or not a number,
  \<open>Please select who paid\<close> for a blank payer, and
  \<open>Please select at least one member to split with\<close> for an empty selection, each
  when the steps before it pass. The entered fields are what they were and the parent's
  handler is not called, so the state behind it is what it was before the call, for
  every handler and every state. When the server rejects the new expense,
  \<open>handleAddExpense\<close> reports the message of the rejection, and when the server
  rejects the deletion or the reading of the expenses after it, \<open>handleDeleteExpense\<close>
  does: in both cases the group, its total and the expenses that the screen holds are
  what they were before the call.
\<close>

theorem ledger_operations_atomic:
  "(trim (ae_description f) = [] \<longrightarrow>
      pressSubmit onSubmit (f, ledger) =
        (f\<lparr>ae_error := Some ''Please enter a description''\<rparr>, ledger)) \<and>
   (trim (ae_description f) \<noteq> [] \<and>
    (trim (ae_amount f) = [] \<or> isNaN (Number (ae_amount f))) \<longrightarrow>
      pressSubmit onSubmit (f, ledger) =
        (f\<lparr>ae_error := Some ''Please enter a valid amount''\<rparr>, ledger)) \<and>
   (trim (ae_description f) \<noteq> [] \<and> trim (ae_amount f) \<noteq> [] \<and>
    \<not> isNaN (Number (ae_amount f)) \<and> trim (ae_paidBy f) = [] \<longrightarrow>
      pressSubmit onSubmit (f, ledger) =
        (f\<lparr>ae_error := Some ''Please select who paid''\<rparr>, ledger)) \<and>
   (trim (ae_description f) \<noteq> [] \<and> trim (ae_amount f) \<noteq> [] \<and>
    \<not> isNaN (Number (ae_amount f)) \<and> trim (ae_paidBy f) \<noteq> [] \<and>
    ae_selectedMembers f = [] \<longrightarrow>
      pressSubmit onSubmit (f, ledger) =
        (f\<lparr>ae_error := Some ''Please select at least one member to split with''\<rparr>, ledger)) \<and>
   (createExpense srv (sc_id s) args = Inl err \<longrightarrow>
      handleAddExpense srv args s =
        s\<lparr>sc_error := Some (messageOf err ''Failed to add expense'')\<rparr>) \<and>
   (deleteExpense srv (sc_id s) expenseId = Inl err \<longrightarrow>
      handleDeleteExpense srv expenseId s =
        s\<lparr>sc_error := Some (messageOf err ''Failed to delete expense'')\<rparr>) \<and>
   (deleteExpense srv (sc_id s) expenseId = Inr () \<and> getExpenses srv (sc_id s) = Inl err \<longrightarrow>
      handleDeleteExpense srv expenseId s =
        s\<lparr>sc_error := Some (messageOf err ''Failed to delete expense'')\<rparr>)"
proof (intro conjI impI)
  assume "trim (ae_description f) = []"
  then show "pressSubmit onSubmit (f, ledger) =
        (f\<lparr>ae_error := Some ''Please enter a description''\<rparr>, ledger)"
    by (simp add: pressSubmit_def ae_handleSubmit_def)
next
  assume "trim (ae_description f) \<noteq> [] \<and>
    (trim (ae_amount f) = [] \<or> isNaN (Number (ae_amount f)))"
  then show "pressSubmit onSubmit (f, ledger) =
        (f\<lparr>ae_error := Some ''Please enter a valid amount''\<rparr>, ledger)"
    by (auto simp add: pressSubmit_def ae_handleSubmit_def)
next
  assume "trim (ae_description f) \<noteq> [] \<and> trim (ae_amount f) \<noteq> [] \<and>
    \<not> isNaN (Number (ae_amount f)) \<and> trim (ae_paidBy f) = []"
  then show "pressSubmit onSubmit (f, ledger) =
        (f\<lparr>ae_error := Some ''Please select who paid''\<rparr>, ledger)"
    by (simp add: pressSubmit_def ae_handleSubmit_def)
next
  assume "trim (ae_description f) \<noteq> [] \<and> trim (ae_amount f) \<noteq> [] \<and>
    \<not> isNaN (Number (ae_amount f)) \<and> trim (ae_paidBy f) \<noteq> [] \<and>
    ae_selectedMembers f = []"
  then show "pressSubmit onSubmit (f, ledger) =
        (f\<lparr>ae_error := Some ''Please select at least one member to split with''\<rparr>, ledger)"
    by (simp add: pressSubmit_def ae_handleSubmit_def)
next
  assume "createExpense srv (sc_id s) args = Inl err"
  then show "handleAddExpense srv args s =
        s\<lparr>sc_error := Some (messageOf err ''Failed to add expense'')\<rparr>"
    by (simp add: handleAddExpense_def)
next
  assume "deleteExpense srv (sc_id s) expenseId = Inl err"
  then show "handleDeleteExpense srv expenseId s =
        s\<lparr>sc_error := Some (messageOf err ''Failed to delete expense'')\<rparr>"
    by (simp add: handleDeleteExpense_def)
next
  assume "deleteExpense srv (sc_id s) expenseId = Inr () \<and> getExpenses srv (sc_id s) = Inl err"
  then show "handleDeleteExpense srv expenseId s =
        s\<lparr>sc_error := Some (messageOf err ''Failed to delete expense'')\<rparr>"
    by (simp add: handleDeleteExpense_def)
qed


theorem ledger_operations_atomic_witness:
  "pressSubmit (handleAddExpense rejectingServer)
      (\<lparr>ae_description = ''  '', ae_amount = ''12.50'', ae_paidBy = ''A'',
        ae_selectedMembers = [''A'', ''B''], ae_error = None, ae_showPaidByDropdown = False\<rparr>,
       tripScreen) =
     (\<lparr>ae_description = ''  '', ae_amount = ''12.50'', ae_paidBy = ''A'',
       ae_selectedMembers = [''A'', ''B''], ae_error = Some ''Please enter a description'',
       ae_showPaidByDropdown = False\<rparr>, tripScreen) \<and>
   pressSubmit (handleAddExpense rejectingServer)
      (\<lparr>ae_description = ''Lunch'', ae_amount = ''abc'', ae_paidBy = ''A'',
        ae_selectedMembers = [''A'', ''B''], ae_error = None, ae_showPaidByDropdown = False\<rparr>,
       tripScreen) =
     (\<lparr>ae_description = ''Lunch'', ae_amount = ''abc'', ae_paidBy = ''A'',
       ae_selectedMembers = [''A'', ''B''], ae_error = Some ''Please enter a valid amount'',
       ae_showPaidByDropdown = False\<rparr>, tripScreen) \<and>
   pressSubmit (handleAddExpense rejectingServer)
      (\<lparr>ae_description = ''Lunch'', ae_amount = ''12.50'', ae_paidBy = '' '',
        ae_selectedMembers = [''A'', ''B''], ae_error = None, ae_showPaidByDropdown = False\<rparr>,
       tripScreen) =
     (\<lparr>ae_description = ''Lunch'', ae_amount = ''12.50'', ae_paidBy = '' '',
       ae_selectedMembers = [''A'', ''B''], ae_error = Some ''Please select who paid'',
       ae_showPaidByDropdown = False\<rparr>, tripScreen) \<and>
   pressSubmit (handleAddExpense rejectingServer)
      (\<lparr>ae_description = ''Lunch'', ae_amount = ''12.50'', ae_paidBy = ''A'',
        ae_selectedMembers = [], ae_error = None, ae_showPaidByDropdown = False\<rparr>,
       tripScreen) =
     (\<lparr>ae_description = ''Lunch'', ae_amount = ''12.50'', ae_paidBy = ''A'',
       ae_selectedMembers = [],
       ae_error = Some ''Please select at least one member to split with'',
       ae_showPaidByDropdown = False\<rparr>, tripScreen) \<and>
   handleAddExpense rejectingServer (''Lunch'', Num 0, ''A'', [''A'', ''B'']) tripScreen =
     tripScreen\<lparr>sc_error := Some ''Amount must be positive''\<rparr> \<and>
   handleDeleteExpense rejectingServer ''e9'' tripScreen =
     tripScreen\<lparr>sc_error := Some ''Expense not found''\<rparr> \<and>
   handleDeleteExpense (rejectingServer\<lparr>deleteExpense := \<lambda>gid eid. Inr ()\<rparr>) ''e1'' tripScreen =
     tripScreen\<lparr>sc_error := Some ''Failed to delete expense''\<rparr>"
proof -
  let ?on = "handleAddExpense rejectingServer"
  let ?f1 = "\<lparr>ae_description = ''  '', ae_amount = ''12.50'', ae_paidBy = ''A'',
        ae_selectedMembers = [''A'', ''B''], ae_error = None, ae_showPaidByDropdown = False\<rparr>"
  let ?f2 = "\<lparr>ae_description = ''Lunch'', ae_amount = ''abc'', ae_paidBy = ''A'',
        ae_selectedMembers = [''A'', ''B''], ae_error = None, ae_showPaidByDropdown = False\<rparr>"
  let ?f3 = "\<lparr>ae_description = ''Lunch'', ae_amount = ''12.50'', ae_paidBy = '' '',
        ae_selectedMembers = [''A'', ''B''], ae_error = None, ae_showPaidByDropdown = False\<rparr>"
  let ?f4 = "\<lparr>ae_description = ''Lunch'', ae_amount = ''12.50'', ae_paidBy = ''A'',
        ae_selectedMembers = [], ae_error = None, ae_showPaidByDropdown = False\<rparr>"
  let ?args = "(''Lunch'', Num 0, ''A'', [''A'', ''B''])"
  let ?srv2 = "rejectingServer\<lparr>deleteExpense := \<lambda>gid eid. Inr ()\<rparr>"
  have t: "trim ''  '' = []" "trim ''Lunch'' \<noteq> []" "trim ''12.50'' \<noteq> []" "trim ''abc'' \<noteq> []"
    "trim ''A'' \<noteq> []" "trim '' '' = []"
    by (simp_all add: trim_def isWhiteSpace_def)
  have n: "isNaN (Number ''abc'')" "\<not> isNaN (Number ''12.50'')"
    by (simp_all add: js_eval)
  have c1: "pressSubmit ?on (?f1, tripScreen) =
      (?f1\<lparr>ae_error := Some ''Please enter a description''\<rparr>, tripScreen)"
    using ledger_operations_atomic [where f = ?f1 and onSubmit = ?on and ledger = tripScreen,
        THEN conjunct1] t
    by simp
  have c2: "pressSubmit ?on (?f2, tripScreen) =
      (?f2\<lparr>ae_error := Some ''Please enter a valid amount''\<rparr>, tripScreen)"
    using ledger_operations_atomic [where f = ?f2 and onSubmit = ?on and ledger = tripScreen,
        THEN conjunct2, THEN conjunct1] t n
    by simp
  have c3: "pressSubmit ?on (?f3, tripScreen) =
      (?f3\<lparr>ae_error := Some ''Please select who paid''\<rparr>, tripScreen)"
    using ledger_operations_atomic [where f = ?f3 and onSubmit = ?on and ledger = tripScreen,
        THEN conjunct2, THEN conjunct2, THEN conjunct1] t n
    by simp
  have c4: "pressSubmit ?on (?f4, tripScreen) =
      (?f4\<lparr>ae_error := Some ''Please select at least one member to split with''\<rparr>,
       tripScreen)"
    using ledger_operations_atomic [where f = ?f4 and onSubmit = ?on and ledger = tripScreen,
        THEN conjunct2, THEN conjunct2, THEN conjunct2, THEN conjunct1] t n
    by simp
  have r1: "createExpense rejectingServer (sc_id tripScreen) ?args
      = Inl (ErrorObject ''Amount must be positive'')"
    by (simp add: rejectingServer_def)
  have c5: "handleAddExpense rejectingServer ?args tripScreen =
      tripScreen\<lparr>sc_error := Some ''Amount must be positive''\<rparr>"
    using ledger_operations_atomic [where srv = rejectingServer and s = tripScreen
        and args = ?args and err = "ErrorObject ''Amount must be positive''",
        THEN conjunct2, THEN conjunct2, THEN conjunct2, THEN conjunct2, THEN conjunct1] r1
    by (simp add: messageOf_def)
  have r2: "deleteExpense rejectingServer (sc_id tripScreen) ''e9''
      = Inl (ErrorObject ''Expense not found'')"
    by (simp add: rejectingServer_def)
  have c6: "handleDeleteExpense rejectingServer ''e9'' tripScreen =
      tripScreen\<lparr>sc_error := Some ''Expense not found''\<rparr>"
    using ledger_operations_atomic [where srv = rejectingServer and s = tripScreen
        and expenseId = "''e9''" and err = "ErrorObject ''Expense not found''",
        THEN conjunct2, THEN conjunct2, THEN conjunct2, THEN conjunct2, THEN conjunct2,
        THEN conjunct1] r2
    by (simp add: messageOf_def)
  have r3: "deleteExpense ?srv2 (sc_id tripScreen) ''e1'' = Inr ()
      \<and> getExpenses ?srv2 (sc_id tripScreen) = Inl OtherValue"
    by (simp add: rejectingServer_def)
  have c7: "handleDeleteExpense ?srv2 ''e1'' tripScreen =
      tripScreen\<lparr>sc_error := Some ''Failed to delete expense''\<rparr>"
    using ledger_operations_atomic [where srv = ?srv2 and s = tripScreen
        and expenseId = "''e1''" and err = OtherValue,
        THEN conjunct2, THEN conjunct2, THEN conjunct2, THEN conjunct2, THEN conjunct2,
        THEN conjunct2] r3
    by (simp add: messageOf_def)
  from c1 c2 c3 c4 c5 c6 c7 show ?thesis by simp
qed

section \<open>Properties of the API response handler\<close>

text \<open>
  Claim C10, as amended. The handler throws for every response whose status is not ok.
  For an ok response it returns the result of \<open>response.json()\<close> exactly when the
  status is not 204 and the content type includes \<open>application/json\<close>: the parsed body,
  or the rejection of \<open>response.json()\<close> when the body is not JSON text. Otherwise it
  returns an empty object. So the handler throws exactly when the status is not ok, or
  the status is ok and not 204, the content type is JSON and the body does not parse;
  a 204 response and an ok response of another content type never throw.
\<close>

theorem handleResponse_outcomes:
  "(\<not> ok r \<longrightarrow> isl (handleResponse r)) \<and>
   (ok r \<longrightarrow>
      handleResponse r =
        (if status r \<noteq> 204 \<and> isJsonContent (contentType r) then
           (case jsonBody r of None \<Rightarrow> Inl SyntaxError | Some v \<Rightarrow> Inr v)
         else Inr (JObject []))) \<and>
   isl (handleResponse r) =
     (\<not> ok r \<or> (status r \<noteq> 204 \<and> isJsonContent (contentType r) \<and> jsonBody r = None))"
  by (auto simp add: handleResponse_def split: option.splits json.splits)

text \<open>
  The claim as stated fails for an ok response that announces JSON and carries a body
  that is not JSON text: the promise of \<open>response.json()\<close> rejects, and so does the
  handler's.
\<close>

theorem handleResponse_counterexample:
  "ok \<lparr>status = 200, contentType = Some ''application/json'', jsonBody = None\<rparr> \<and>
   handleResponse \<lparr>status = 200, contentType = Some ''application/json'', jsonBody = None\<rparr>
     = Inl SyntaxError"
  by (simp add: handleResponse_def ok_def isJsonContent_def)

theorem handleResponse_outcomes_witness:
  "handleResponse \<lparr>status = 404, contentType = Some ''application/json'',
      jsonBody = Some (JObject [(''message'', JString ''Group not found'')])\<rparr>
     = Inl (Error (JString ''Group not found'')) \<and>
   handleResponse \<lparr>status = 200, contentType = Some ''application/json; charset=utf-8'',
      jsonBody = Some (JArray [])\<rparr> = Inr (JArray []) \<and>
   handleResponse \<lparr>status = 204, contentType = Some ''application/json'', jsonBody = None\<rparr>
     = Inr (JObject []) \<and>
   handleResponse \<lparr>status = 200, contentType = Some ''text/html'', jsonBody = None\<rparr>
     = Inr (JObject [])"
  using
    handleResponse_outcomes [of "\<lparr>status = 200,
      contentType = Some ''application/json; charset=utf-8'', jsonBody = Some (JArray [])\<rparr>"]
    handleResponse_outcomes [of "\<lparr>status = 204, contentType = Some ''application/json'',
      jsonBody = None\<rparr>"]
    handleResponse_outcomes [of "\<lparr>status = 200, contentType = Some ''text/html'',
      jsonBody = None\<rparr>"]
    handleResponse_outcomes [of "\<lparr>status = 404, contentType = Some ''application/json'',
      jsonBody = Some (JObject [(''message'', JString ''Group not found'')])\<rparr>"]
  by (simp add: handleResponse_def ok_def isJsonContent_def message_def truthy_def)

section \<open>Properties of the expenses by month\<close>

subsection \<open>The reducer\<close>

lemma mset_pushExpense:
  "mset (concat (map snd (pushExpense k e gs))) = add_mset e (mset (concat (map snd gs)))"
  by (induction gs) auto

lemma keys_pushExpense:
  "map fst (pushExpense k e gs) =
     (if k \<in> set (map fst gs) then map fst gs else map fst gs @ [k])"
  by (induction gs) (auto simp add: rev_image_eqI)

lemma keys_foldl_pushExpense:
  "set (map fst (foldl (\<lambda>groups e. pushExpense (kf e) e groups) gs es))
     = set (map fst gs) \<union> kf ` set es"
proof (induction es arbitrary: gs)
  case Nil
  show ?case by simp
next
  case (Cons e es)
  have "set (map fst (pushExpense (kf e) e gs)) = insert (kf e) (set (map fst gs))"
    by (simp only: keys_pushExpense) auto
  with Cons show ?case by auto
qed

lemma distinct_pushExpense:
  "distinct (map fst gs) \<Longrightarrow> distinct (map fst (pushExpense k e gs))"
  by (simp add: keys_pushExpense)

lemma mset_foldl_pushExpense:
  "mset (concat (map snd (foldl (\<lambda>groups e. pushExpense (kf e) e groups) gs es)))
     = mset (concat (map snd gs)) + mset es"
  by (induction es arbitrary: gs) (simp_all add: mset_pushExpense)

lemma distinct_foldl_pushExpense:
  "distinct (map fst gs) \<Longrightarrow>
     distinct (map fst (foldl (\<lambda>groups e. pushExpense (kf e) e groups) gs es))"
  by (induction es arbitrary: gs) (simp_all add: distinct_pushExpense)

lemma pushExpense_distinct_keys:
  "distinct (map fst gs) \<Longrightarrow>
   pushExpense k e gs =
     (if k \<in> set (map fst gs)
      then map (\<lambda>g. if fst g = k then (fst g, snd g @ [e]) else g) gs
      else gs @ [(k, [e])])"
proof (induction gs)
  case Nil
  show ?case by simp
next
  case (Cons g gs)
  obtain k' es where g: "g = (k', es)" by (cases g)
  show ?case
  proof (cases "k' = k")
    case True
    then have "k \<notin> set (map fst gs)" using Cons.prems g by simp
    then have "map (\<lambda>g. if fst g = k then (fst g, snd g @ [e]) else g) gs = gs"
      by (induction gs) auto
    with True g show ?thesis by simp
  next
    case False
    with Cons g show ?thesis by simp
  qed
qed

lemma bucketsOf_pushExpense:
  assumes "bucketsOf kf xs gs"
  shows "bucketsOf kf (xs @ [e]) (pushExpense (kf e) e gs)"
proof -
  from assms have d: "distinct (map fst gs)" and k: "set (map fst gs) = kf ` set xs"
    and b: "\<forall>g\<in>set gs. snd g = filter (\<lambda>e. kf e = fst g) xs"
    by (simp_all add: bucketsOf_def)
  show ?thesis
  proof (cases "kf e \<in> set (map fst gs)")
    case True
    then have p: "pushExpense (kf e) e gs
        = map (\<lambda>g. if fst g = kf e then (fst g, snd g @ [e]) else g) gs"
      using d by (simp add: pushExpense_distinct_keys)
    have m: "map fst (map (\<lambda>g. if fst g = kf e then (fst g, snd g @ [e]) else g) gs) = map fst gs"
      by (induction gs) auto
    show ?thesis
      unfolding bucketsOf_def p m using d k b True by auto
  next
    case False
    then have p: "pushExpense (kf e) e gs = gs @ [(kf e, [e])]"
      using d by (simp add: pushExpense_distinct_keys)
    have "filter (\<lambda>x. kf x = kf e) xs = []"
      using False k by (auto simp add: filter_empty_conv intro: rev_image_eqI)
    then show ?thesis
      unfolding bucketsOf_def p using d k b False by auto
  qed
qed

lemma bucketsOf_foldl:
  "bucketsOf kf xs gs \<Longrightarrow>
     bucketsOf kf (xs @ es) (foldl (\<lambda>groups e. pushExpense (kf e) e groups) gs es)"
proof (induction es arbitrary: xs gs)
  case Nil
  then show ?case by simp
next
  case (Cons e es)
  have "bucketsOf kf ((xs @ [e]) @ es)
      (foldl (\<lambda>groups e. pushExpense (kf e) e groups) (pushExpense (kf e) e gs) es)"
    by (rule Cons.IH) (rule bucketsOf_pushExpense [OF Cons.prems])
  then show ?case by simp
qed

subsection \<open>The sort\<close>

lemma mset_insertSorted: "mset (insertSorted cmp x xs) = add_mset x (mset xs)"
  by (induction xs) auto

lemma mset_sortWith: "mset (sortWith cmp xs) = mset xs"
  unfolding sortWith_def by (induction xs) (simp_all add: mset_insertSorted)

lemma mset_buckets:
  "mset (concat (map snd xs)) = \<Sum>\<^sub># (image_mset (\<lambda>g. mset (snd g)) (mset xs))"
  by (induction xs) simp_all

lemma mset_buckets_cong:
  assumes "mset xs = mset ys"
  shows "mset (concat (map snd xs)) = mset (concat (map snd ys))"
  by (simp only: mset_buckets assms)

lemma set_insertSorted: "set (insertSorted cmp x xs) = insert x (set xs)"
  by (induction xs) auto

lemma set_sortWith: "set (sortWith cmp xs) = set xs"
  unfolding sortWith_def by (induction xs) (simp_all add: set_insertSorted)

lemma descending_insertSorted:
  assumes "\<forall>g\<in>set (x # xs). dateGetTime rt (fst g) \<noteq> None"
    and "sorted_wrt (\<lambda>a b. the (dateGetTime rt (fst b)) \<le> the (dateGetTime rt (fst a))) xs"
  shows "sorted_wrt (\<lambda>a b. the (dateGetTime rt (fst b)) \<le> the (dateGetTime rt (fst a)))
           (insertSorted (compareMonths rt) x xs)"
  using assms
proof (induction xs)
  case Nil
  show ?case by simp
next
  case (Cons y ys)
  obtain tx ty where t: "dateGetTime rt (fst x) = Some tx" "dateGetTime rt (fst y) = Some ty"
    using Cons.prems(1) by auto
  show ?case
  proof (cases "compareMonths rt x y \<le> 0")
    case True
    then have "ty \<le> tx" using t by (simp add: compareMonths_def)
    with True Cons.prems(2) t show ?thesis by auto
  next
    case False
    then have "tx \<le> ty" using t by (simp add: compareMonths_def)
    moreover have "sorted_wrt (\<lambda>a b. the (dateGetTime rt (fst b)) \<le> the (dateGetTime rt (fst a)))
           (insertSorted (compareMonths rt) x ys)"
      using Cons.IH Cons.prems by simp
    ultimately show ?thesis using False Cons.prems(2) t by (auto simp add: set_insertSorted)
  qed
qed

lemma descending_sortWith:
  assumes "\<forall>g\<in>set gs. dateGetTime rt (fst g) \<noteq> None"
  shows "sorted_wrt (\<lambda>a b. the (dateGetTime rt (fst b)) \<le> the (dateGetTime rt (fst a)))
           (sortWith (compareMonths rt) gs)"
  using assms
proof (induction gs)
  case Nil
  show ?case by (simp add: sortWith_def)
next
  case (Cons g gs)
  have "sorted_wrt (\<lambda>a b. the (dateGetTime rt (fst b)) \<le> the (dateGetTime rt (fst a)))
          (insertSorted (compareMonths rt) g (sortWith (compareMonths rt) gs))"
    by (rule descending_insertSorted) (use Cons in \<open>simp_all add: set_sortWith\<close>)
  then show ?case by (simp add: sortWith_def)
qed

subsection \<open>The month sections\<close>

text \<open>
  Every section holds the expenses of its month key, in the order of the expense
  list: the sort moves whole sections only.
\<close>

lemma monthSections_keep_order:
  "\<forall>g\<in>set (monthSections rt expenses).
     snd g = filter (\<lambda>e. toLocaleMonthYear rt (createdAt e) = fst g) expenses"
proof -
  have "bucketsOf (\<lambda>e. toLocaleMonthYear rt (createdAt e)) ([] @ expenses)
      (groupExpensesByMonth rt expenses)"
    unfolding groupExpensesByMonth_def by (rule bucketsOf_foldl) (simp add: bucketsOf_def)
  then show ?thesis
    by (simp add: bucketsOf_def monthSections_def set_sortWith)
qed

text \<open>
  On a runtime that parses every month key, the sections are in descending order of
  the parsed times.
\<close>

lemma monthSections_descending_when_parsed:
  assumes "\<forall>e\<in>set expenses. dateGetTime rt (toLocaleMonthYear rt (createdAt e)) \<noteq> None"
  shows "sorted_wrt (\<lambda>a b. the (dateGetTime rt (fst b)) \<le> the (dateGetTime rt (fst a)))
           (monthSections rt expenses)"
proof -
  have "set (map fst (groupExpensesByMonth rt expenses))
      = (\<lambda>e. toLocaleMonthYear rt (createdAt e)) ` set expenses"
    unfolding groupExpensesByMonth_def
    using keys_foldl_pushExpense [of "\<lambda>e. toLocaleMonthYear rt (createdAt e)" "[]" expenses]
    by simp
  with assms have "\<forall>g\<in>set (groupExpensesByMonth rt expenses). dateGetTime rt (fst g) \<noteq> None"
    by (metis (no_types, lifting) image_iff list.set_map)
  then show ?thesis
    unfolding monthSections_def by (rule descending_sortWith)
qed

text \<open>
  On a runtime that parses no month key, the sort changes nothing: the sections stay
  in the order in which their months first appear in the expense list.
\<close>

lemma sortWith_all_equal:
  "\<forall>x\<in>set xs. \<forall>y\<in>set xs. cmp x y \<le> 0 \<Longrightarrow> sortWith cmp xs = xs"
proof (induction xs)
  case Nil
  show ?case by (simp add: sortWith_def)
next
  case (Cons x xs)
  then have "sortWith cmp xs = xs" by simp
  then have "sortWith cmp (x # xs) = insertSorted cmp x xs" by (simp add: sortWith_def)
  also have "\<dots> = x # xs" using Cons.prems by (cases xs) simp_all
  finally show ?case .
qed

lemma monthSections_when_unparsed:
  assumes "\<forall>e\<in>set expenses. dateGetTime rt (toLocaleMonthYear rt (createdAt e)) = None"
  shows "monthSections rt expenses = groupExpensesByMonth rt expenses"
proof -
  have "set (map fst (groupExpensesByMonth rt expenses))
      = (\<lambda>e. toLocaleMonthYear rt (createdAt e)) ` set expenses"
    unfolding groupExpensesByMonth_def
    using keys_foldl_pushExpense [of "\<lambda>e. toLocaleMonthYear rt (createdAt e)" "[]" expenses]
    by simp
  with assms have "\<forall>g\<in>set (groupExpensesByMonth rt expenses). dateGetTime rt (fst g) = None"
    by (metis (no_types, lifting) image_iff list.set_map)
  then have "\<forall>x\<in>set (groupExpensesByMonth rt expenses).
      \<forall>y\<in>set (groupExpensesByMonth rt expenses). compareMonths rt x y \<le> 0"
    by (simp add: compareMonths_def)
  then show ?thesis
    unfolding monthSections_def by (rule sortWith_all_equal)
qed

text \<open>
  Claim C4. The month sections partition the expenses: the expenses of all sections
  together are the expenses of the list, each as often as the list has it, and no two
  sections have the same month key. The sections are a function of the runtime and of
  the expense list alone, so computing them twice from the same list gives the same
  sections.
\<close>

theorem monthSections_partition:
  "mset (concat (map snd (monthSections rt expenses))) = mset expenses \<and>
   distinct (map fst (monthSections rt expenses))"
proof
  have "mset (concat (map snd (monthSections rt expenses)))
      = mset (concat (map snd (groupExpensesByMonth rt expenses)))"
    unfolding monthSections_def by (rule mset_buckets_cong) (rule mset_sortWith)
  also have "\<dots> = mset expenses"
    unfolding groupExpensesByMonth_def by (simp add: mset_foldl_pushExpense)
  finally show "mset (concat (map snd (monthSections rt expenses))) = mset expenses" .
next
  have "distinct (map fst (groupExpensesByMonth rt expenses))"
    unfolding groupExpensesByMonth_def by (rule distinct_foldl_pushExpense) simp
  moreover have "mset (map fst (monthSections rt expenses))
      = mset (map fst (groupExpensesByMonth rt expenses))"
    unfolding monthSections_def by (simp add: mset_sortWith)
  ultimately show "distinct (map fst (monthSections rt expenses))"
    by (metis mset_eq_imp_distinct_iff)
qed

text \<open>
  Claim C3. The screen means to show the most recent month first: it sorts the sections
  by the difference of the times \<open>new Date(key).getTime()\<close> of their keys. The key is
  the month label that \<open>toLocaleString\<close> produced, and where the \<open>Date\<close> constructor
  does not read that label back the comparator is \<open>NaN\<close> and the sort leaves the
  sections in the order of first appearance; where it reads the year only, the months
  of a year compare equal, with the same effect. On both example runtimes, an expense
  of May 2024 followed by one of October 2024 gives the section of May before the
  section of October.
\<close>

theorem monthSections_order_failing_input:
  "monthSections germanRuntime
     [mkExpense ''e1'' ''2024-05-17T10:00:00.000Z'',
      mkExpense ''e2'' ''2024-10-02T18:30:00.000Z''] =
     [(''Mai 2024'', [mkExpense ''e1'' ''2024-05-17T10:00:00.000Z'']),
      (''Oktober 2024'', [mkExpense ''e2'' ''2024-10-02T18:30:00.000Z''])] \<and>
   monthSections germanRuntimeYearOnly
     [mkExpense ''e1'' ''2024-05-17T10:00:00.000Z'',
      mkExpense ''e2'' ''2024-10-02T18:30:00.000Z''] =
     [(''Mai 2024'', [mkExpense ''e1'' ''2024-05-17T10:00:00.000Z'']),
      (''Oktober 2024'', [mkExpense ''e2'' ''2024-10-02T18:30:00.000Z''])]"
  by (simp add: monthSections_def groupExpensesByMonth_def sortWith_def compareMonths_def
      germanRuntime_def germanRuntimeYearOnly_def germanMonthYear_def germanMonths_def
      yearOnlyTime_def startOfYear_def allDigits_def mkExpense_def digitsValue_def
      digitValue_def)

section \<open>Properties of the ledger engine of the specification\<close>

subsection \<open>Shares and sums of balances\<close>

lemma sum_extra_units:
  "(\<Sum>i = 0..<n. if int i < r then 1 else 0 :: int) = max 0 (min (int n) r)"
  by (induction n) auto

lemma sum_list_shares:
  assumes "0 < n"
  shows "sum_list (shares a n) = a"
proof -
  have r: "0 \<le> a mod int n" "a mod int n < int n"
    using assms by simp_all
  have "sum_list (shares a n)
      = (\<Sum>i = 0..<n. a div int n + (if int i < a mod int n then 1 else 0))"
    unfolding shares_def by (simp add: interv_sum_list_conv_sum_set_nat)
  also have "\<dots> = int n * (a div int n) + (\<Sum>i = 0..<n. if int i < a mod int n then 1 else 0)"
    by (simp add: sum.distrib)
  also have "\<dots> = int n * (a div int n) + a mod int n"
    using r by (simp add: sum_extra_units)
  also have "\<dots> = a" by simp
  finally show ?thesis .
qed

lemma sum_credit:
  assumes "finite M"
  shows "(\<Sum>m\<in>M. credit x v bal m) = (\<Sum>m\<in>M. bal m) + (if x \<in> M then v else 0)"
proof (cases "x \<in> M")
  case True
  have "(\<Sum>m\<in>M. credit x v bal m) = credit x v bal x + (\<Sum>m\<in>M - {x}. credit x v bal m)"
    using assms True by (rule sum.remove)
  also have "(\<Sum>m\<in>M - {x}. credit x v bal m) = (\<Sum>m\<in>M - {x}. bal m)"
    by (rule sum.cong) (simp_all add: credit_def)
  also have "credit x v bal x = bal x + v" by (simp add: credit_def)
  finally have "(\<Sum>m\<in>M. credit x v bal m) = (bal x + (\<Sum>m\<in>M - {x}. bal m)) + v" by simp
  also have "bal x + (\<Sum>m\<in>M - {x}. bal m) = (\<Sum>m\<in>M. bal m)"
    using assms True by (rule sum.remove [symmetric])
  finally show ?thesis using True by simp
next
  case False
  have "(\<Sum>m\<in>M. credit x v bal m) = (\<Sum>m\<in>M. bal m)"
    by (rule sum.cong) (use False in \<open>auto simp add: credit_def\<close>)
  then show ?thesis using False by simp
qed

lemma sum_debitShares:
  assumes "finite M" and "fst ` set ps \<subseteq> M"
  shows "(\<Sum>m\<in>M. debitShares ps bal m) = (\<Sum>m\<in>M. bal m) - sum_list (map snd ps)"
  using assms(2)
proof (induction ps arbitrary: bal)
  case Nil
  show ?case by simp
next
  case (Cons p ps)
  have "(\<Sum>m\<in>M. debitShares (p # ps) bal m)
      = (\<Sum>m\<in>M. credit (fst p) (- snd p) bal m) - sum_list (map snd ps)"
    using Cons by simp
  also have "(\<Sum>m\<in>M. credit (fst p) (- snd p) bal m) = (\<Sum>m\<in>M. bal m) - snd p"
    using Cons.prems by (simp add: sum_credit [OF assms(1)])
  finally show ?case by simp
qed

lemma sum_applyRecord:
  assumes "validRecord ms r"
  shows "(\<Sum>m\<in>set ms. applyRecord r bal m) = (\<Sum>m\<in>set ms. bal m)"
proof (cases "record_kind r")
  case ExpenseKind
  let ?n = "length (splitSet r)"
  let ?ps = "zip (splitSet r) (shares (amountMinorUnits r) ?n)"
  have len: "length (shares (amountMinorUnits r) ?n) = ?n" by (simp add: shares_def)
  have n: "0 < ?n" using assms by (simp add: validRecord_def)
  have "fst ` set ?ps \<subseteq> set ms"
    using assms by (auto simp add: validRecord_def dest: set_zip_leftD)
  then have "(\<Sum>m\<in>set ms. debitShares ?ps (credit (payer r) (amountMinorUnits r) bal) m)
      = (\<Sum>m\<in>set ms. credit (payer r) (amountMinorUnits r) bal m) - sum_list (map snd ?ps)"
    by (intro sum_debitShares) simp_all
  also have "map snd ?ps = shares (amountMinorUnits r) ?n" using len by simp
  also have "sum_list (shares (amountMinorUnits r) ?n) = amountMinorUnits r"
    using n by (rule sum_list_shares)
  also have "(\<Sum>m\<in>set ms. credit (payer r) (amountMinorUnits r) bal m)
      = (\<Sum>m\<in>set ms. bal m) + amountMinorUnits r"
    using assms by (simp add: sum_credit validRecord_def)
  finally show ?thesis using ExpenseKind by (simp add: applyRecord_def)
next
  case SettlementKind
  then obtain recipient where s: "splitSet r = [recipient]"
    using assms by (cases "splitSet r") (auto simp add: validRecord_def)
  then have "recipient \<in> set ms" "payer r \<in> set ms"
    using assms by (simp_all add: validRecord_def)
  then show ?thesis
    using SettlementKind s by (simp add: applyRecord_def sum_credit)
qed

lemma sum_foldl_applyRecord:
  "\<forall>r\<in>set rs. validRecord ms r \<Longrightarrow>
     (\<Sum>m\<in>set ms. foldl (\<lambda>bal r. applyRecord r bal) b0 rs m) = (\<Sum>m\<in>set ms. b0 m)"
  by (induction rs arbitrary: b0) (simp_all add: sum_applyRecord)

lemma addRecord_accepted:
  assumes "addRecord now d l = Inr (r, l')"
  shows "validRecord (members l) r" and "members l' = members l"
    and "records l' = records l @ [r]"
  using assms
  by (auto simp add: addRecord_def validateDraft_def validRecord_def Let_def list_all_iff
      split: option.splits if_splits)

lemma addRecords_valid:
  assumes "addRecords l ds = Inr l'" and "\<forall>r\<in>set (records l). validRecord (members l) r"
  shows "members l' = members l \<and> (\<forall>r\<in>set (records l'). validRecord (members l') r)"
  using assms
proof (induction ds arbitrary: l)
  case Nil
  then show ?case by simp
next
  case (Cons nd ds)
  from Cons.prems(1) obtain r l1 where a: "addRecord (fst nd) (snd nd) l = Inr (r, l1)"
    and rest: "addRecords l1 ds = Inr l'"
    by (auto split: sum.splits)
  have v: "\<forall>x\<in>set (records l1). validRecord (members l1) x"
    using addRecord_accepted [OF a] Cons.prems(2) by auto
  from Cons.IH [OF rest v] addRecord_accepted(2) [OF a] show ?case by auto
qed

lemma computeBalances_member:
  "computeBalances l m =
     (if m \<in> set (members l) then Some (netBalances (records l) m) else None)"
proof -
  have "map_of (map (\<lambda>m. (m, f m)) ms) m = (if m \<in> set ms then Some (f m) else None)"
    for f :: "string \<Rightarrow> int" and ms
    by (induction ms) auto
  then show ?thesis by (simp add: computeBalances_def)
qed

lemma balanceSum_members:
  "balanceSum l = (\<Sum>m\<in>set (members l). netBalances (records l) m)"
proof -
  have "dom (computeBalances l) = set (members l)"
    by (auto simp add: computeBalances_member dom_def)
  then show ?thesis
    by (simp add: balanceSum_def computeBalances_member)
qed

lemma debitShares_member:
  "distinct (map fst ps) \<Longrightarrow>
     debitShares ps bal m = bal m - (case map_of ps m of None \<Rightarrow> 0 | Some s \<Rightarrow> s)"
proof (induction ps arbitrary: bal)
  case Nil
  show ?case by simp
next
  case (Cons p ps)
  have "fst p \<notin> fst ` set ps" using Cons.prems by simp
  then have "map_of ps (fst p) = None" by (simp add: map_of_eq_None_iff)
  with Cons show ?case by (cases p) (simp add: credit_def)
qed

lemma upt3: "[0..<3] = [0, 1, 2]"
  by (simp add: upt_rec)

subsection \<open>Conservation\<close>

text \<open>
  Claim C1. For every ledger built from a member list by a sequence of additions that
  are all accepted, the balances that \<open>computeBalances\<close> returns, one for each member,
  sum to zero.
\<close>

theorem computeBalances_conservation:
  assumes "addRecords (newLedger ms) ds = Inr l"
  shows "balanceSum l = 0"
proof -
  have "\<forall>r\<in>set (records (newLedger ms)). validRecord (members (newLedger ms)) r"
    by (simp add: newLedger_def)
  from addRecords_valid [OF assms this]
  have "\<forall>r\<in>set (records l). validRecord (members l) r" by auto
  then have "(\<Sum>m\<in>set (members l). netBalances (records l) m) = (\<Sum>m\<in>set (members l). 0)"
    unfolding netBalances_def by (rule sum_foldl_applyRecord)
  then show ?thesis by (simp add: balanceSum_members)
qed

theorem computeBalances_conservation_witness:
  "addRecords (newLedger [''A'', ''B'', ''C'']) [(0, dinnerDraft), (7, paybackDraft)]
     = Inr paybackLedger \<and>
   balanceSum paybackLedger = 0"
proof -
  have h: "addRecords (newLedger [''A'', ''B'', ''C'']) [(0, dinnerDraft), (7, paybackDraft)]
     = Inr paybackLedger"
    by (simp add: ledger_eval)
  from computeBalances_conservation [OF h] h show ?thesis by simp
qed

subsection \<open>Rounding\<close>

text \<open>
  Claim C2, as amended. An expense of amount \<open>a\<close> split between \<open>n\<close> members has
  \<open>n\<close> shares that sum to \<open>a\<close>; the share at position \<open>i\<close> of the split set is the
  quotient of \<open>a\<close> by \<open>n\<close>, plus one minor unit when \<open>i\<close> is below the remainder; and
  \<open>computeBalances\<close> debits each member of a split set without repetition the share
  of its position (and credits the payer the amount). For the members A, B, C and one
  expense of 10000 minor units paid by A and split between A, B, C, the balances are
  A: 6666, B: -3333, C: -3333: the one minor unit of remainder goes to A, the first
  member of the split set.
\<close>

theorem shares_rounding:
  "(0 < n \<longrightarrow> length (shares a n) = n \<and> sum_list (shares a n) = a) \<and>
   (i < n \<longrightarrow> shares a n ! i = a div int n + (if int i < a mod int n then 1 else 0)) \<and>
   (record_kind r = ExpenseKind \<and> distinct (splitSet r) \<and> i < length (splitSet r) \<longrightarrow>
      applyRecord r bal (splitSet r ! i) =
        bal (splitSet r ! i) + (if splitSet r ! i = payer r then amountMinorUnits r else 0)
          - shares (amountMinorUnits r) (length (splitSet r)) ! i) \<and>
   addRecords (newLedger [''A'', ''B'', ''C'']) [(0, dinnerDraft)] = Inr dinnerLedger \<and>
   computeBalances dinnerLedger ''A'' = Some 6666 \<and>
   computeBalances dinnerLedger ''B'' = Some (- 3333) \<and>
   computeBalances dinnerLedger ''C'' = Some (- 3333) \<and>
   balanceSum dinnerLedger = 0"
proof (intro conjI impI)
  assume "0 < n"
  then show "sum_list (shares a n) = a" by (rule sum_list_shares)
  show "length (shares a n) = n" by (simp add: shares_def)
next
  assume "i < n"
  then show "shares a n ! i = a div int n + (if int i < a mod int n then 1 else 0)"
    by (simp add: shares_def)
next
  assume h: "record_kind r = ExpenseKind \<and> distinct (splitSet r) \<and> i < length (splitSet r)"
  let ?sh = "shares (amountMinorUnits r) (length (splitSet r))"
  have len: "length ?sh = length (splitSet r)" by (simp add: shares_def)
  have d: "distinct (map fst (zip (splitSet r) ?sh))" using h len by simp
  have "map_of (zip (splitSet r) ?sh) (splitSet r ! i) = Some (?sh ! i)"
    using h len by (simp add: map_of_zip_nth)
  then show "applyRecord r bal (splitSet r ! i) =
        bal (splitSet r ! i) + (if splitSet r ! i = payer r then amountMinorUnits r else 0)
          - ?sh ! i"
    using h by (simp add: applyRecord_def debitShares_member [OF d] credit_def)
next
  show "addRecords (newLedger [''A'', ''B'', ''C'']) [(0, dinnerDraft)] = Inr dinnerLedger"
    by (simp add: ledger_eval)
  show "computeBalances dinnerLedger ''A'' = Some 6666" by (simp add: ledger_eval upt3)
  show "computeBalances dinnerLedger ''B'' = Some (- 3333)" by (simp add: ledger_eval upt3)
  show "computeBalances dinnerLedger ''C'' = Some (- 3333)" by (simp add: ledger_eval upt3)
  show "balanceSum dinnerLedger = 0"
    by (simp add: balanceSum_members) (simp add: ledger_eval upt3)
qed

text \<open>
  The balances of the claim as stated, A: 6667 and C: -3334, are not the balances of
  the rule: they give the minor unit of remainder to C, the last member of the split set.
\<close>

theorem shares_rounding_counterexample:
  "shares 10000 3 = [3334, 3333, 3333] \<and>
   computeBalances dinnerLedger ''A'' = Some 6666 \<and>
   computeBalances dinnerLedger ''A'' \<noteq> Some 6667 \<and>
   computeBalances dinnerLedger ''C'' = Some (- 3333) \<and>
   computeBalances dinnerLedger ''C'' \<noteq> Some (- 3334)"
  by (simp add: ledger_eval upt3)

theorem shares_rounding_witness:
  "sum_list (shares 10 4) = 10 \<and> shares 10 4 ! 1 = 3 \<and> shares 10 4 ! 2 = 2 \<and>
   shares 10000 3 ! 1 = 3333 \<and>
   applyRecord (hd (records dinnerLedger)) (\<lambda>m. 0) ''B'' = - 3333"
proof -
  let ?r = "hd (records dinnerLedger)"
  note s1 = shares_rounding [of 4 10 1 ?r "\<lambda>m. 0"]
  note s2 = shares_rounding [of 4 10 2 ?r "\<lambda>m. 0"]
  note s3 = shares_rounding [of 3 10000 1 ?r "\<lambda>m. 0"]
  have a: "sum_list (shares 10 4) = 10"
    using s1 [THEN conjunct1] by simp
  have b: "shares 10 4 ! 1 = 3"
    using s1 [THEN conjunct2, THEN conjunct1] by simp
  have c: "shares 10 4 ! 2 = 2"
    using s2 [THEN conjunct2, THEN conjunct1] by simp
  have d: "shares 10000 3 ! 1 = 3333"
    using s3 [THEN conjunct2, THEN conjunct1] by simp
  have r: "record_kind ?r = ExpenseKind" "splitSet ?r = [''A'', ''B'', ''C'']"
    "payer ?r = ''A''" "amountMinorUnits ?r = 10000"
    by (simp_all add: dinnerLedger_def)
  have "applyRecord ?r (\<lambda>m. 0) (splitSet ?r ! 1) =
      0 + (if splitSet ?r ! 1 = payer ?r then amountMinorUnits ?r else 0)
        - shares (amountMinorUnits ?r) (length (splitSet ?r)) ! 1"
    using s3 [THEN conjunct2, THEN conjunct2, THEN conjunct1] r by simp
  moreover have "length (splitSet ?r) = 3" "splitSet ?r ! 1 = ''B''"
    using r by simp_all
  ultimately have e: "applyRecord ?r (\<lambda>m. 0) ''B'' = - 3333"
    using r(3,4) d by simp
  from a b c d e show ?thesis by simp
qed

subsection \<open>Settlements\<close>

text \<open>
  Claim C7. A settlement record of amount A from the payer P with the split set [R]
  adds A to the balance of R and takes A from the balance of P, whatever the balances
  before it. Adding such a settlement to a ledger changes the balances that
  \<open>computeBalances\<close> returns in that way and leaves \<open>totalExpenses\<close> as it was, and so
  does removing a settlement. After the example expense, a settlement of 5000 minor units
  from B to A raises the balance of A by 5000 and lowers the balance of B by 5000.
\<close>

theorem settlement_transfer:
  "(record_kind s = SettlementKind \<and> splitSet s = [R] \<longrightarrow>
      applyRecord s bal m =
        bal m + (if m = R then amountMinorUnits s else 0)
              - (if m = payer s then amountMinorUnits s else 0)) \<and>
   (addRecord now d l = Inr (r, l') \<and> draft_kind d = SettlementKind \<and> draft_split d = [R] \<longrightarrow>
      computeBalances l' m =
        map_option (\<lambda>b. b + (if m = R then draft_amount d else 0)
                          - (if m = draft_payer d then draft_amount d else 0))
          (computeBalances l m) \<and>
      totalExpenses l' = totalExpenses l) \<and>
   (removeRecord rid l = Inr (r, l') \<and> record_kind r = SettlementKind \<longrightarrow>
      totalExpenses l' = totalExpenses l)"
proof (intro conjI impI)
  assume "record_kind s = SettlementKind \<and> splitSet s = [R]"
  then show "applyRecord s bal m =
        bal m + (if m = R then amountMinorUnits s else 0)
              - (if m = payer s then amountMinorUnits s else 0)"
    by (simp add: applyRecord_def credit_def)
next
  assume h: "addRecord now d l = Inr (r, l') \<and> draft_kind d = SettlementKind \<and> draft_split d = [R]"
  then have a: "addRecord now d l = Inr (r, l')" by simp
  have r: "record_kind r = SettlementKind" "splitSet r = [R]" "payer r = draft_payer d"
    "amountMinorUnits r = draft_amount d"
    using h by (auto simp add: addRecord_def Let_def split: option.splits)
  have "netBalances (records l') m = applyRecord r (netBalances (records l)) m"
    by (simp add: addRecord_accepted(3) [OF a] netBalances_def)
  also have "\<dots> = netBalances (records l) m + (if m = R then draft_amount d else 0)
                          - (if m = draft_payer d then draft_amount d else 0)"
    using r by (simp add: applyRecord_def credit_def)
  finally show "computeBalances l' m =
        map_option (\<lambda>b. b + (if m = R then draft_amount d else 0)
                          - (if m = draft_payer d then draft_amount d else 0))
          (computeBalances l m)"
    by (simp add: computeBalances_member addRecord_accepted(2) [OF a])
  show "totalExpenses l' = totalExpenses l"
    using h by (auto simp add: addRecord_def Let_def split: option.splits)
next
  assume "removeRecord rid l = Inr (r, l') \<and> record_kind r = SettlementKind"
  then show "totalExpenses l' = totalExpenses l"
    by (auto simp add: removeRecord_def split: option.splits)
qed

theorem settlement_transfer_witness:
  "addRecord 7 paybackDraft dinnerLedger = Inr (paybackRecord, paybackLedger) \<and>
   computeBalances dinnerLedger ''A'' = Some 6666 \<and>
   computeBalances paybackLedger ''A'' = Some 11666 \<and>
   computeBalances dinnerLedger ''B'' = Some (- 3333) \<and>
   computeBalances paybackLedger ''B'' = Some (- 8333) \<and>
   totalExpenses paybackLedger = totalExpenses dinnerLedger \<and>
   removeRecord 1 paybackLedger = Inr (paybackRecord, dinnerLedger\<lparr>nextId := 2\<rparr>) \<and>
   totalExpenses (dinnerLedger\<lparr>nextId := 2\<rparr>) = totalExpenses paybackLedger"
proof -
  have a: "addRecord 7 paybackDraft dinnerLedger = Inr (paybackRecord, paybackLedger)"
    by (simp add: ledger_eval)
  have k: "draft_kind paybackDraft = SettlementKind" "draft_split paybackDraft = [''A'']"
    "draft_amount paybackDraft = 5000" "draft_payer paybackDraft = ''B''"
    by (simp_all add: paybackDraft_def)
  have rm: "removeRecord 1 paybackLedger = Inr (paybackRecord, dinnerLedger\<lparr>nextId := 2\<rparr>)"
    by (simp add: removeRecord_def ledger_eval)
  have rk: "record_kind paybackRecord = SettlementKind" by (simp add: paybackRecord_def)
  have A0: "computeBalances dinnerLedger ''A'' = Some 6666"
    and B0: "computeBalances dinnerLedger ''B'' = Some (- 3333)"
    by (simp_all add: ledger_eval upt3)
  have A1: "computeBalances paybackLedger ''A'' = Some 11666"
    using settlement_transfer [of paybackRecord "''A''" "\<lambda>m. 0" "''A''" 7 paybackDraft
        dinnerLedger paybackRecord paybackLedger 1] a k A0
    by simp
  have B1: "computeBalances paybackLedger ''B'' = Some (- 8333)"
    using settlement_transfer [of paybackRecord "''A''" "\<lambda>m. 0" "''B''" 7 paybackDraft
        dinnerLedger paybackRecord paybackLedger 1] a k B0
    by simp
  have T: "totalExpenses paybackLedger = totalExpenses dinnerLedger"
    using settlement_transfer [of paybackRecord "''A''" "\<lambda>m. 0" "''A''" 7 paybackDraft
        dinnerLedger paybackRecord paybackLedger 1] a k
    by simp
  have T2: "totalExpenses (dinnerLedger\<lparr>nextId := 2\<rparr>) = totalExpenses paybackLedger"
    using settlement_transfer [of paybackRecord "''A''" "\<lambda>m. 0" "''A''" 7 paybackDraft
        paybackLedger paybackRecord "dinnerLedger\<lparr>nextId := 2\<rparr>" 1] rm rk
    by simp
  show ?thesis using a A0 A1 B0 B1 T rm T2 by simp
qed

end
